theory Spec2Isabelle
  imports Complex_Main "HOL-Library.Sublist"
begin

section \<open>Shared vocabulary\<close>

text \<open>
  Times are JavaScript \<open>Date\<close> values, read as milliseconds since the epoch; other
  numbers (scores, elapsed minutes) are reals. Every awaited call either rejects
  (\<open>Throws\<close>) or resolves with a value. Strings are sequences of code units below 256.
\<close>

type_synonym socket_id = nat
type_synonym interview_id = nat
type_synonym user_id = nat
type_synonym daf_id = nat
type_synonym addr = nat
type_synonym time = int

datatype 'a outcome = Throws | Returns 'a

text \<open>\<open>String.prototype.trim\<close>: white space and line terminators below U+0100.\<close>

definition isWhiteSpace :: "char \<Rightarrow> bool" where
  "isWhiteSpace c = (c \<in> set [CHR 0x09, CHR 0x0A, CHR 0x0B, CHR 0x0C, CHR 0x0D, CHR 0x20, CHR 0xA0])"

definition trim :: "string \<Rightarrow> string" where
  "trim s = rev (dropWhile isWhiteSpace (rev (dropWhile isWhiteSpace s)))"

text \<open>The guard \<open>!text || text.trim().length === 0\<close> on a string.\<close>

definition blank :: "string \<Rightarrow> bool" where
  "blank s = (s = [] \<or> length (trim s) = 0)"

text \<open>\<open>Math.round\<close> rounds halves towards plus infinity.\<close>

definition mathRound :: "real \<Rightarrow> int" where
  "mathRound x = \<lfloor>x + 1 / 2\<rfloor>"

section \<open>sentimentAnalysisService.js\<close>

text \<open>
  The \<open>sentiment\<close> member of the analysis object. The other members (emotions,
  communication, entities, confidence, quality) are derived from the entity and syntax
  results and are not read by any property below; \<open>derivedOk\<close> in \<open>analyzeSentiment\<close>
  says whether computing them returned.
\<close>

record analysis =
  score :: real
  magnitude :: real
  label :: string
  confidence :: real

definition getSentimentLabel :: "real \<Rightarrow> string" where
  "getSentimentLabel sc =
     (if sc \<ge> 0.25 then ''positive''
      else if sc \<le> - 0.25 then ''negative''
      else ''neutral'')"

definition calculateConfidence :: "real \<Rightarrow> real \<Rightarrow> real" where
  "calculateConfidence sc mag = (let absScore = \<bar>sc\<bar> in min 1.0 ((absScore * mag) / 2))"

text \<open>
  \<open>analyzeSentiment\<close>: \<open>documentSentiment\<close> is what the language client's
  \<open>analyzeSentiment\<close> call resolves with (score, magnitude); every failure inside the
  \<open>try\<close> is rethrown as one error.
\<close>

definition analyzeSentiment :: "string \<Rightarrow> (real \<times> real) outcome \<Rightarrow> bool \<Rightarrow> analysis outcome" where
  "analyzeSentiment txt documentSentiment derivedOk =
     (if blank txt then Throws
      else case documentSentiment of
             Throws \<Rightarrow> Throws
           | Returns (sc, mag) \<Rightarrow>
               if \<not> derivedOk then Throws
               else Returns \<lparr> score = sc, magnitude = mag,
                              label = getSentimentLabel sc,
                              confidence = calculateConfidence sc mag \<rparr>)"

section \<open>speechToTextService.js\<close>

text \<open>
  What the speech client's \<open>recognize\<close> call resolves with: \<open>response.results\<close>
  (possibly absent), each result a list of alternatives.
\<close>

record alternative =
  transcript :: string
  alt_confidence :: real

type_synonym recognition_result = "alternative list"

text \<open>
  The object \<open>transcribeAudio\<close> returns. Its \<open>words\<close> member (per-word timing) is
  left out: it is computed after the transcript from the same first alternatives and
  nothing reads it.
\<close>

record stt_result =
  transcription :: string
  confidence_of :: real
  languageCode :: string

text \<open>
  The value the orchestrator binds to \<open>transcription\<close>: \<open>null\<close>, a string,
  or the result object above.
\<close>

datatype transcription_value = JNull | JString string | JObject stt_result

fun joinWith :: "string \<Rightarrow> string list \<Rightarrow> string" where
  "joinWith sep [] = []"
| "joinWith sep [x] = x"
| "joinWith sep (x # y # ys) = x @ sep @ joinWith sep (y # ys)"

text \<open>
  \<open>transcribeAudio\<close> (called without options, so the language code is \<open>en-IN\<close>). A result
  with no alternative makes \<open>result.alternatives[0].transcript\<close> raise, which the
  \<open>catch\<close> turns into the service's own error.
\<close>

definition transcribeAudio :: "string \<Rightarrow> recognition_result list option outcome \<Rightarrow> transcription_value outcome" where
  "transcribeAudio audioBuffer recognized =
     (case recognized of
        Throws \<Rightarrow> Throws
      | Returns None \<Rightarrow> Returns JNull
      | Returns (Some results) \<Rightarrow>
          if length results = 0 then Returns JNull
          else if list_ex (\<lambda>r. r = []) results then Throws
          else Returns (JObject
                 \<lparr> transcription = trim (joinWith '' '' (map (\<lambda>r. transcript (hd r)) results)),
                   confidence_of = alt_confidence (hd (hd results)),
                   languageCode = ''en-IN'' \<rparr>))"

section \<open>textToSpeechService.js\<close>

text \<open>
  \<open>synthesizeSpeech\<close>: rejects a blank text before any call; otherwise resolves with the
  audio content the speech client resolved with, or rethrows.
\<close>

definition synthesizeSpeech :: "string \<Rightarrow> string outcome \<Rightarrow> string outcome" where
  "synthesizeSpeech txt synthesized = (if blank txt then Throws else synthesized)"

section \<open>The interview document\<close>

record question =
  q_id :: nat
  q_text :: string

record panelist =
  p_name :: string
  p_role :: string
  p_expertise :: "string list"

record response =
  questionId :: nat
  r_transcription :: string
  r_sentiment :: analysis
  timestamp :: time
  responseTime :: int

record interview =
  iid :: interview_id
  userId :: user_id
  dafId :: daf_id
  itype :: string
  duration :: int
  difficulty :: string
  focusAreas :: "string list"
  status :: string
  startedAt :: time
  endedAt :: "time option"
  actualDuration :: "int option"
  questions :: "question list"
  responses :: "response list"
  panelists :: "panelist list"

text \<open>
  The collection is the list of its documents. \<open>findOne\<close> takes the first document that
  matches; \<open>findByIdAndUpdate\<close> changes the first document with the id and does nothing
  when there is none.
\<close>

definition findOne :: "(interview \<Rightarrow> bool) \<Rightarrow> interview list \<Rightarrow> interview option" where
  "findOne p docs = List.find p docs"

fun findByIdAndUpdate :: "interview_id \<Rightarrow> (interview \<Rightarrow> interview) \<Rightarrow> interview list \<Rightarrow> interview list" where
  "findByIdAndUpdate i f [] = []"
| "findByIdAndUpdate i f (d # ds) =
     (if iid d = i then f d # ds else d # findByIdAndUpdate i f ds)"

definition pushResponse :: "response \<Rightarrow> interview \<Rightarrow> interview" where
  "pushResponse r d = d\<lparr> responses := responses d @ [r] \<rparr>"

definition pushQuestion :: "question \<Rightarrow> interview \<Rightarrow> interview" where
  "pushQuestion q d = d\<lparr> questions := questions d @ [q] \<rparr>"

section \<open>socketService.js\<close>

subsection \<open>State\<close>

text \<open>
  A session is a JavaScript object: \<open>activeInterviews\<close> maps a socket id to the
  object's address and \<open>objects\<close> holds the objects, so a handler that keeps a
  reference to a session still writes to it after the map entry is gone.
  \<open>s_interview\<close> is the document as read at join time.
\<close>

record session =
  s_interviewId :: interview_id
  s_userId :: user_id
  s_interview :: interview
  currentQuestionIndex :: nat
  isProcessing :: bool

record socket =
  sock_id :: socket_id
  sock_userId :: user_id

record state =
  db :: "interview list"
  activeInterviews :: "socket_id \<rightharpoonup> addr"
  objects :: "addr \<Rightarrow> session"
  nextAddr :: addr
  rooms :: "(socket_id \<times> interview_id) set"

text \<open>
  Events emitted to the handler's own socket. The audio payload of a question event is
  the synthesized content (its base64 encoding is not modelled).
\<close>

datatype event =
    ErrorEv string
  | InterviewState question nat nat int
  | ProcessingResponse string "string option"
  | NextQuestion question nat string string analysis
  | FirstQuestion question nat string "panelist list"
  | InterviewEnded interview_id nat int

definition minutesSince :: "time \<Rightarrow> time \<Rightarrow> real" where
  "minutesSince started now = of_int (now - started) / (1000 * 60)"

definition setProcessing :: "addr \<Rightarrow> bool \<Rightarrow> state \<Rightarrow> state" where
  "setProcessing a b st = st\<lparr> objects := (objects st)(a := (objects st a)\<lparr> isProcessing := b \<rparr>) \<rparr>"

subsection \<open>endInterview\<close>

text \<open>The three clock readings of \<open>endInterview\<close> and whether its update resolves.\<close>

record end_env =
  ee_update :: bool
  ee_endedAt :: time
  ee_actualNow :: time
  ee_summaryNow :: time

definition endInterview :: "socket \<Rightarrow> addr \<Rightarrow> end_env \<Rightarrow> state \<Rightarrow> (state \<times> event list) outcome" where
  "endInterview sock a ee st =
     (let s = objects st a in
      if \<not> ee_update ee then Throws
      else Returns
        (st\<lparr> db := findByIdAndUpdate (s_interviewId s)
                     (\<lambda>d. d\<lparr> status := ''completed'',
                             endedAt := Some (ee_endedAt ee),
                             actualDuration :=
                               Some (mathRound (minutesSince (startedAt (s_interview s)) (ee_actualNow ee))) \<rparr>)
                     (db st),
             rooms := rooms st - {(sock_id sock, s_interviewId s)},
             activeInterviews := (activeInterviews st)(sock_id sock := None) \<rparr>,
         [InterviewEnded (s_interviewId s)
            (length (questions (s_interview s)) + currentQuestionIndex s)
            (mathRound (minutesSince (startedAt (s_interview s)) (ee_summaryNow ee)))]))"

subsection \<open>generateNextQuestion\<close>

text \<open>
  \<open>generated\<close> is what \<open>generateFollowUpQuestion\<close> does when called (\<open>Returns None\<close>
  a falsy result); the \<open>catch\<close> rethrows.
\<close>

definition generateNextQuestion :: "session \<Rightarrow> time \<Rightarrow> question option outcome \<Rightarrow> question option outcome" where
  "generateNextQuestion s now generated =
     (let interview = s_interview s;
          timeElapsed = minutesSince (startedAt interview) now;
          maxQuestions = 15
      in if timeElapsed \<ge> of_int (duration interview) \<or> length (questions interview) \<ge> maxQuestions
         then Returns None
         else generated)"

subsection \<open>The audio_response handler\<close>

record payload =
  audioData :: string
  p_questionId :: nat
  p_responseTime :: "int option"

text \<open>
  What the collaborators do during one run, in call order: the awaited
  \<open>transcribeAudio\<close> call, the language client inside \<open>analyzeSentiment\<close>, the
  \<open>$push\<close> of the response, the clock, \<open>generateFollowUpQuestion\<close>, the speech client
  inside \<open>synthesizeSpeech\<close>, the \<open>$push\<close> of the question, and \<open>endInterview\<close>.
  \<open>ae_transcribed\<close> ranges over every value the handler's tests tell apart, so a
  property of the handler holds with any transcriber; the handler reads the value as a
  string, and \<open>transcribeAudio\<close> above gives the values the repository's own service
  resolves with.
\<close>

record audio_env =
  ae_transcribed :: "transcription_value outcome"
  ae_documentSentiment :: "(real \<times> real) outcome"
  ae_derivedOk :: bool
  ae_timestamp :: time
  ae_responsePushed :: bool
  ae_policyNow :: time
  ae_generated :: "question option outcome"
  ae_synthesized :: "string outcome"
  ae_questionPushed :: bool
  ae_end :: end_env

text \<open>The \<open>catch\<close> block: it looks the session up again by socket id.\<close>

definition audioCatch :: "socket \<Rightarrow> state \<Rightarrow> event list \<Rightarrow> state \<times> event list" where
  "audioCatch sock st evs =
     (let evs' = evs @ [ErrorEv ''Failed to process response''] in
      case activeInterviews st (sock_id sock) of
        None \<Rightarrow> (st, evs')
      | Some a \<Rightarrow> (setProcessing a False st, evs'))"

text \<open>Lines 160--182: a question was generated.\<close>

definition deliverNext ::
  "socket \<Rightarrow> addr \<Rightarrow> audio_env \<Rightarrow> string \<Rightarrow> analysis \<Rightarrow> question \<Rightarrow> state \<Rightarrow> event list \<Rightarrow> state \<times> event list" where
  "deliverNext sock a env t sa nextQuestion st evs =
     (case synthesizeSpeech (q_text nextQuestion) (ae_synthesized env) of
        Throws \<Rightarrow> audioCatch sock st evs
      | Returns audioBuffer \<Rightarrow>
          if \<not> ae_questionPushed env then audioCatch sock st evs
          else
            let st1 = st\<lparr> db := findByIdAndUpdate (s_interviewId (objects st a))
                                   (pushQuestion nextQuestion) (db st) \<rparr>;
                st2 = st1\<lparr> objects := (objects st1)
                          (a := (objects st1 a)\<lparr> currentQuestionIndex :=
                                                   currentQuestionIndex (objects st1 a) + 1 \<rparr>) \<rparr>
            in (setProcessing a False st2,
                evs @ [NextQuestion nextQuestion (currentQuestionIndex (objects st2 a) + 1)
                         audioBuffer t sa]))"

text \<open>Lines 155--188: decide, then deliver the next question or end the interview.\<close>

definition continueOrEnd ::
  "socket \<Rightarrow> addr \<Rightarrow> audio_env \<Rightarrow> string \<Rightarrow> analysis \<Rightarrow> state \<Rightarrow> event list \<Rightarrow> state \<times> event list" where
  "continueOrEnd sock a env t sa st evs =
     (case generateNextQuestion (objects st a) (ae_policyNow env) (ae_generated env) of
        Throws \<Rightarrow> audioCatch sock st evs
      | Returns None \<Rightarrow>
          (case endInterview sock a (ae_end env) st of
             Throws \<Rightarrow> audioCatch sock st evs
           | Returns (st', evs') \<Rightarrow> (setProcessing a False st', evs @ evs'))
      | Returns (Some nextQuestion) \<Rightarrow> deliverNext sock a env t sa nextQuestion st evs)"

text \<open>Lines 133--155: score the transcript and append the response.\<close>

definition analyseAndStore ::
  "socket \<Rightarrow> addr \<Rightarrow> payload \<Rightarrow> audio_env \<Rightarrow> string \<Rightarrow> state \<Rightarrow> event list \<Rightarrow> state \<times> event list" where
  "analyseAndStore sock a d env t st evs =
     (let evs1 = evs @ [ProcessingResponse ''analyzing'' (Some t)] in
      case analyzeSentiment t (ae_documentSentiment env) (ae_derivedOk env) of
        Throws \<Rightarrow> audioCatch sock st evs1
      | Returns sentimentAnalysis \<Rightarrow>
          let r = \<lparr> questionId = p_questionId d,
                    r_transcription = t,
                    r_sentiment = sentimentAnalysis,
                    timestamp = ae_timestamp env,
                    responseTime = (case p_responseTime d of None \<Rightarrow> 0 | Some x \<Rightarrow> x) \<rparr>
          in if \<not> ae_responsePushed env then audioCatch sock st evs1
             else continueOrEnd sock a env t sentimentAnalysis
                    (st\<lparr> db := findByIdAndUpdate (s_interviewId (objects st a))
                                  (pushResponse r) (db st) \<rparr>)
                    (evs1 @ [ProcessingResponse ''generating_question'' None]))"

text \<open>
  The handler. An absent payload makes the destructuring raise; calling \<open>trim\<close> on a
  result object raises as well (an object has no such method).
\<close>

definition audio_response :: "socket \<Rightarrow> payload option \<Rightarrow> audio_env \<Rightarrow> state \<Rightarrow> state \<times> event list" where
  "audio_response sock data env st =
     (case activeInterviews st (sock_id sock) of
        None \<Rightarrow> (st, [ErrorEv ''Invalid session or already processing''])
      | Some a \<Rightarrow>
          if isProcessing (objects st a)
          then (st, [ErrorEv ''Invalid session or already processing''])
          else
            let st1 = setProcessing a True st in
            (case data of
               None \<Rightarrow> audioCatch sock st1 []
             | Some d \<Rightarrow>
                 let evs = [ProcessingResponse ''transcribing'' None] in
                 (case ae_transcribed env of
                    Throws \<Rightarrow> audioCatch sock st1 evs
                  | Returns JNull \<Rightarrow>
                      (setProcessing a False st1,
                       evs @ [ErrorEv ''Could not transcribe audio. Please try again.''])
                  | Returns (JObject obj) \<Rightarrow> audioCatch sock st1 evs
                  | Returns (JString t) \<Rightarrow>
                      if blank t
                      then (setProcessing a False st1,
                            evs @ [ErrorEv ''Could not transcribe audio. Please try again.''])
                      else analyseAndStore sock a d env t st1 evs)))"

subsection \<open>The join_interview handler\<close>

text \<open>
  What \<open>generateFirstQuestion\<close> and the speech client do, and whether the \<open>$push\<close> of
  the question resolves. Reading \<open>text\<close> of a \<open>null\<close> result raises.
\<close>

record first_env =
  fe_generated :: "question option outcome"
  fe_synthesized :: "string outcome"
  fe_questionPushed :: bool

text \<open>Whether the lookup of the interview resolves, the clock, and the first question.\<close>

record join_env =
  je_lookup :: bool
  je_now :: time
  je_first :: first_env

definition generateAndSendFirstQuestion :: "socket \<Rightarrow> interview \<Rightarrow> first_env \<Rightarrow> state \<Rightarrow> state \<times> event list" where
  "generateAndSendFirstQuestion sock interview fe st =
     (let failed = (st, [ErrorEv ''Failed to generate first question'']) in
      case fe_generated fe of
        Throws \<Rightarrow> failed
      | Returns None \<Rightarrow> failed
      | Returns (Some firstQuestion) \<Rightarrow>
          (case synthesizeSpeech (q_text firstQuestion) (fe_synthesized fe) of
             Throws \<Rightarrow> failed
           | Returns audioBuffer \<Rightarrow>
               if \<not> fe_questionPushed fe then failed
               else (st\<lparr> db := findByIdAndUpdate (iid interview) (pushQuestion firstQuestion) (db st) \<rparr>,
                     [FirstQuestion firstQuestion 1 audioBuffer (panelists interview)])))"

definition join_interview :: "socket \<Rightarrow> interview_id option \<Rightarrow> join_env \<Rightarrow> state \<Rightarrow> state \<times> event list" where
  "join_interview sock data env st =
     (case data of
        None \<Rightarrow> (st, [ErrorEv ''Failed to join interview session''])
      | Some interviewId \<Rightarrow>
          if \<not> je_lookup env then (st, [ErrorEv ''Failed to join interview session''])
          else
            (case findOne (\<lambda>d. iid d = interviewId \<and> userId d = sock_userId sock
                              \<and> status d = ''in_progress'') (db st) of
              None \<Rightarrow> (st, [ErrorEv ''Invalid or inactive interview session''])
            | Some interview \<Rightarrow>
                let a = nextAddr st;
                    st1 = st\<lparr> rooms := insert (sock_id sock, interviewId) (rooms st),
                              activeInterviews := (activeInterviews st)(sock_id sock \<mapsto> a),
                              objects := (objects st)
                                (a := \<lparr> s_interviewId = interviewId,
                                        s_userId = sock_userId sock,
                                        s_interview = interview,
                                        currentQuestionIndex = length (questions interview),
                                        isProcessing = False \<rparr>),
                              nextAddr := a + 1 \<rparr>
                in if length (questions interview) = 0
                   then generateAndSendFirstQuestion sock interview (je_first env) st1
                   else (st1,
                         [InterviewState (last (questions interview))
                            (length (questions interview))
                            (length (questions interview))
                            (mathRound (of_int (je_now env - startedAt interview) / 1000))])))"

text \<open>
  The handler is suspended at its awaited calls. \<open>joinLookup\<close> is the handler from the
  answer of \<open>Interview.findOne\<close> up to the call of \<open>generateAndSendFirstQuestion\<close> (lines
  59--99), which runs without suspension; its second result is the interview the
  handler holds when it goes on to the first question. The rest of the handler is
  \<open>generateAndSendFirstQuestion\<close> on that interview, whose only write is the \<open>$push\<close> at
  its end. \<open>join_interview\<close> above is the two with no other event in between.
\<close>

definition joinLookup ::
  "socket \<Rightarrow> interview_id option \<Rightarrow> join_env \<Rightarrow> state \<Rightarrow> (state \<times> event list) \<times> interview option" where
  "joinLookup sock data env st =
     (case data of
        None \<Rightarrow> ((st, [ErrorEv ''Failed to join interview session'']), None)
      | Some interviewId \<Rightarrow>
          if \<not> je_lookup env then ((st, [ErrorEv ''Failed to join interview session'']), None)
          else
            (case findOne (\<lambda>d. iid d = interviewId \<and> userId d = sock_userId sock
                              \<and> status d = ''in_progress'') (db st) of
              None \<Rightarrow> ((st, [ErrorEv ''Invalid or inactive interview session'']), None)
            | Some interview \<Rightarrow>
                let a = nextAddr st;
                    st1 = st\<lparr> rooms := insert (sock_id sock, interviewId) (rooms st),
                              activeInterviews := (activeInterviews st)(sock_id sock \<mapsto> a),
                              objects := (objects st)
                                (a := \<lparr> s_interviewId = interviewId,
                                        s_userId = sock_userId sock,
                                        s_interview = interview,
                                        currentQuestionIndex = length (questions interview),
                                        isProcessing = False \<rparr>),
                              nextAddr := a + 1 \<rparr>
                in if length (questions interview) = 0
                   then ((st1, []), Some interview)
                   else ((st1,
                          [InterviewState (last (questions interview))
                             (length (questions interview))
                             (length (questions interview))
                             (mathRound (of_int (je_now env - startedAt interview) / 1000))]),
                         None)))"

subsection \<open>The end_interview and disconnect handlers\<close>

definition end_interview :: "socket \<Rightarrow> end_env \<Rightarrow> state \<Rightarrow> state \<times> event list" where
  "end_interview sock ee st =
     (case activeInterviews st (sock_id sock) of
        None \<Rightarrow> (st, [])
      | Some a \<Rightarrow>
          (case endInterview sock a ee st of
             Throws \<Rightarrow> (st, [ErrorEv ''Failed to end interview''])
           | Returns r \<Rightarrow> r))"

definition disconnect :: "socket \<Rightarrow> state \<Rightarrow> state \<times> event list" where
  "disconnect sock st = (st\<lparr> activeInterviews := (activeInterviews st)(sock_id sock := None) \<rparr>, [])"

subsection \<open>Sequences of events\<close>

text \<open>
  The events that read or change the state, each handled from start to end before the
  next one. The \<open>typing\<close> event only relays an indicator to the other sockets of the
  room and is left out.
\<close>

datatype op =
    JoinInterview socket "interview_id option" join_env
  | AudioResponse socket "payload option" audio_env
  | EndInterview socket end_env
  | Disconnect socket

fun step :: "op \<Rightarrow> state \<Rightarrow> state \<times> event list" where
  "step (JoinInterview sock data env) st = join_interview sock data env st"
| "step (AudioResponse sock data env) st = audio_response sock data env st"
| "step (EndInterview sock ee) st = end_interview sock ee st"
| "step (Disconnect sock) st = disconnect sock st"

fun run :: "op list \<Rightarrow> state \<Rightarrow> state" where
  "run [] st = st"
| "run (x # xs) st = run xs (fst (step x st))"

text \<open>
  Events among which joins may overlap: besides a whole event, the lookup part of a
  join, and the first-question part of a join that holds the interview \<open>d\<close> it read.
\<close>

datatype action =
    Whole op
  | Lookup socket "interview_id option" join_env
  | FirstQuestionFor socket interview first_env

fun act :: "action \<Rightarrow> state \<Rightarrow> state \<times> event list" where
  "act (Whole x) st = step x st"
| "act (Lookup sock data env) st = fst (joinLookup sock data env st)"
| "act (FirstQuestionFor sock d fe) st = generateAndSendFirstQuestion sock d fe st"

fun perform :: "action list \<Rightarrow> state \<Rightarrow> state" where
  "perform [] st = st"
| "perform (x # xs) st = perform xs (fst (act x st))"

text \<open>
  An event whose transcription, if it is an answer, is not a string: all that
  \<open>transcribeAudio\<close> resolves with is \<open>null\<close> or a result object.
\<close>

fun serviceTranscription :: "op \<Rightarrow> bool" where
  "serviceTranscription (AudioResponse sock data env) =
     (case ae_transcribed env of Returns (JString t) \<Rightarrow> False | _ \<Rightarrow> True)"
| "serviceTranscription (JoinInterview sock data env) = True"
| "serviceTranscription (EndInterview sock ee) = True"
| "serviceTranscription (Disconnect sock) = True"

text \<open>The stored sequences of an interview (empty when there is no such document).\<close>

definition storedQuestions :: "interview_id \<Rightarrow> interview list \<Rightarrow> question list" where
  "storedQuestions i docs =
     (case findOne (\<lambda>d. iid d = i) docs of None \<Rightarrow> [] | Some d \<Rightarrow> questions d)"

definition storedResponses :: "interview_id \<Rightarrow> interview list \<Rightarrow> response list" where
  "storedResponses i docs =
     (case findOne (\<lambda>d. iid d = i) docs of None \<Rightarrow> [] | Some d \<Rightarrow> responses d)"

definition questionsOf :: "interview_id \<Rightarrow> state \<Rightarrow> question list" where
  "questionsOf i st = storedQuestions i (db st)"

definition responsesOf :: "interview_id \<Rightarrow> state \<Rightarrow> response list" where
  "responsesOf i st = storedResponses i (db st)"


section \<open>The interview routes: POST /start\<close>

text \<open>
  The request body, one optional member per key of \<open>startInterviewSchema\<close>. A body with
  other keys or with members of other types is rejected by the schema as well and is not
  represented.
\<close>

record start_body =
  b_type :: "string option"
  b_duration :: "real option"
  b_difficulty :: "string option"
  b_focusAreas :: "string list option"

record start_value =
  v_type :: string
  v_duration :: int
  v_difficulty :: string
  v_focusAreas :: "string list"

text \<open>
  \<open>startInterviewSchema.validate\<close>: the keys are checked in schema order and the first
  violation is the error (named here by its key); defaults fill absent members. An item
  of \<open>focusAreas\<close> is a \<open>Joi.string()\<close>, which does not admit the empty string.
\<close>

definition validateStart :: "start_body \<Rightarrow> string + start_value" where
  "validateStart body =
     (let t = (case b_type body of None \<Rightarrow> ''mock'' | Some x \<Rightarrow> x);
          n = (case b_duration body of None \<Rightarrow> 30 | Some x \<Rightarrow> x);
          l = (case b_difficulty body of None \<Rightarrow> ''medium'' | Some x \<Rightarrow> x);
          f = (case b_focusAreas body of None \<Rightarrow> [] | Some x \<Rightarrow> x)
      in if t \<noteq> ''mock'' \<and> t \<noteq> ''practice'' then Inl ''type''
         else if of_int \<lfloor>n\<rfloor> \<noteq> n \<or> n < 15 \<or> n > 60 then Inl ''duration''
         else if l \<noteq> ''easy'' \<and> l \<noteq> ''medium'' \<and> l \<noteq> ''hard'' then Inl ''difficulty''
         else if list_ex (\<lambda>x. x = []) f then Inl ''focusAreas''
         else Inr \<lparr> v_type = t, v_duration = \<lfloor>n\<rfloor>, v_difficulty = l, v_focusAreas = f \<rparr>)"

datatype http_data =
    NoData
  | Errors "string list"
  | Ongoing interview_id time
  | Started interview_id interview_id time int "panelist list"

record http_response =
  code :: nat
  success :: bool
  message :: string
  payload_of :: http_data

definition defaultPanelists :: "panelist list" where
  "defaultPanelists =
     [\<lparr> p_name = ''Dr. Rajesh Kumar'', p_role = ''Chairman'',
         p_expertise = [''Public Administration'', ''Ethics''] \<rparr>,
      \<lparr> p_name = ''Ms. Priya Sharma'', p_role = ''Member'',
         p_expertise = [''Current Affairs'', ''Social Issues''] \<rparr>,
      \<lparr> p_name = ''Mr. Amit Singh'', p_role = ''Member'',
         p_expertise = [''Economics'', ''Policy Analysis''] \<rparr>]"

text \<open>The identifier of a new document differs from every stored one.\<close>

definition freshId :: "interview list \<Rightarrow> interview_id" where
  "freshId docs = foldr max (map iid docs) 0 + 1"

text \<open>Whether each of the three awaited persistence calls resolves, and the clock.\<close>

record start_env =
  se_dafLookup :: bool
  se_ongoingLookup :: bool
  se_saved :: bool
  se_now :: time

definition internalError :: http_response where
  "internalError = \<lparr> code = 500, success = False, message = ''Internal server error'',
                      payload_of = NoData \<rparr>"

text \<open>
  The handler of \<open>POST /start\<close> for the authenticated user \<open>uid\<close>; \<open>dafs\<close> is the DAF
  collection as (user, document id) pairs. The handler is suspended at each awaited
  call, so it reads and writes the interview collection at two different moments:
  \<open>startGuard\<close> is the handler up to the answer of \<open>Interview.findOne\<close> (lines 21--54),
  on the collection as that lookup sees it; \<open>startSave\<close> is the rest (lines 56--109), on
  the collection as \<open>interview.save\<close> finds it.
\<close>

datatype start_phase = Rejected http_response | Passed start_value daf_id

definition startGuard ::
  "user_id \<Rightarrow> start_body \<Rightarrow> start_env \<Rightarrow> (user_id \<times> daf_id) list \<Rightarrow> interview list
     \<Rightarrow> start_phase" where
  "startGuard uid body env dafs docs =
     (case validateStart body of
        Inl key \<Rightarrow>
          Rejected \<lparr> code = 400, success = False, message = ''Validation error'',
                     payload_of = Errors [key] \<rparr>
      | Inr v \<Rightarrow>
          if \<not> se_dafLookup env then Rejected internalError
          else
            (case map_of dafs uid of
               None \<Rightarrow>
                 Rejected \<lparr> code = 400, success = False,
                            message = ''Please submit your DAF before starting an interview'',
                            payload_of = NoData \<rparr>
             | Some daf \<Rightarrow>
                 if \<not> se_ongoingLookup env then Rejected internalError
                 else
                   (case findOne (\<lambda>d. userId d = uid \<and> status d = ''in_progress'') docs of
                      Some ongoingInterview \<Rightarrow>
                        Rejected \<lparr> code = 400, success = False,
                                   message = ''You have an ongoing interview. Please complete it first.'',
                                   payload_of = Ongoing (iid ongoingInterview) (startedAt ongoingInterview) \<rparr>
                    | None \<Rightarrow> Passed v daf)))"

definition startSave ::
  "user_id \<Rightarrow> start_value \<Rightarrow> daf_id \<Rightarrow> start_env \<Rightarrow> interview list
     \<Rightarrow> interview list \<times> http_response" where
  "startSave uid v daf env docs =
     (let interview =
            \<lparr> iid = freshId docs, userId = uid, dafId = daf,
              itype = v_type v, duration = v_duration v,
              difficulty = v_difficulty v, focusAreas = v_focusAreas v,
              status = ''in_progress'', startedAt = se_now env,
              endedAt = None, actualDuration = None,
              questions = [], responses = [],
              panelists = defaultPanelists \<rparr>
      in if \<not> se_saved env then (docs, internalError)
         else (docs @ [interview],
               \<lparr> code = 201, success = True,
                 message = ''Interview session started successfully'',
                 payload_of = Started (iid interview) (iid interview)
                   (startedAt interview) (duration interview)
                   (panelists interview) \<rparr>))"

text \<open>
  A request handled with no other request in between: the save finds the collection
  that the guard saw.
\<close>

definition startInterview ::
  "user_id \<Rightarrow> start_body \<Rightarrow> start_env \<Rightarrow> (user_id \<times> daf_id) list \<Rightarrow> interview list
     \<Rightarrow> interview list \<times> http_response" where
  "startInterview uid body env dafs docs =
     (case startGuard uid body env dafs docs of
        Rejected r \<Rightarrow> (docs, r)
      | Passed v daf \<Rightarrow> startSave uid v daf env docs)"

text \<open>How many interviews of a user are in progress.\<close>

definition inProgressCount :: "user_id \<Rightarrow> interview list \<Rightarrow> nat" where
  "inProgressCount u docs = length (filter (\<lambda>d. userId d = u \<and> status d = ''in_progress'') docs)"

section \<open>Scenarios\<close>

text \<open>
  Concrete inputs for the theorems below: one interview as \<open>POST /start\<close> creates it
  (thirty minutes, started at time 0), two sockets of its owner, and collaborators that
  succeed. The \<open>n\<close>-th answer arrives \<open>n\<close> minutes after the start.
\<close>

definition interview0 :: interview where
  "interview0 = \<lparr> iid = 1, userId = 7, dafId = 3, itype = ''mock'', duration = 30,
                   difficulty = ''medium'', focusAreas = [], status = ''in_progress'',
                   startedAt = 0, endedAt = None, actualDuration = None,
                   questions = [], responses = [], panelists = defaultPanelists \<rparr>"

definition noSession :: session where
  "noSession = \<lparr> s_interviewId = 0, s_userId = 0, s_interview = interview0,
                  currentQuestionIndex = 0, isProcessing = False \<rparr>"

definition state0 :: state where
  "state0 = \<lparr> db = [interview0], activeInterviews = Map.empty, objects = (\<lambda>a. noSession),
               nextAddr = 0, rooms = {} \<rparr>"

definition sockA :: socket where
  "sockA = \<lparr> sock_id = 1, sock_userId = 7 \<rparr>"

definition sockB :: socket where
  "sockB = \<lparr> sock_id = 2, sock_userId = 7 \<rparr>"

definition questionNo :: "nat \<Rightarrow> question" where
  "questionNo n = \<lparr> q_id = n, q_text = ''Why the civil services?'' \<rparr>"

definition joinOk :: join_env where
  "joinOk = \<lparr> je_lookup = True, je_now = 1000,
               je_first = \<lparr> fe_generated = Returns (Some (questionNo 1)),
                            fe_synthesized = Returns ''mp3'',
                            fe_questionPushed = True \<rparr> \<rparr>"

definition endAt :: "time \<Rightarrow> end_env" where
  "endAt t = \<lparr> ee_update = True, ee_endedAt = t, ee_actualNow = t, ee_summaryNow = t \<rparr>"

definition answerTo :: "nat \<Rightarrow> payload" where
  "answerTo n = \<lparr> audioData = ''T2dnUw=='', p_questionId = n, p_responseTime = Some 4000 \<rparr>"

definition goodRun :: "nat \<Rightarrow> audio_env" where
  "goodRun n = \<lparr> ae_transcribed = Returns (JString ''To serve the public''),
                  ae_documentSentiment = Returns (0.5, 1),
                  ae_derivedOk = True,
                  ae_timestamp = 60000 * int n,
                  ae_responsePushed = True,
                  ae_policyNow = 60000 * int n,
                  ae_generated = Returns (Some (questionNo (n + 1))),
                  ae_synthesized = Returns ''mp3'',
                  ae_questionPushed = True,
                  ae_end = endAt (60000 * int n) \<rparr>"

text \<open>The same run with the question generator failing.\<close>

definition generatorDown :: "nat \<Rightarrow> audio_env" where
  "generatorDown n = (goodRun n)\<lparr> ae_generated := Throws \<rparr>"

text \<open>Join, then fourteen answered questions: fifteen questions have been asked.\<close>

definition fifteenAsked :: state where
  "fifteenAsked =
     run (JoinInterview sockA (Some 1) joinOk
          # map (\<lambda>n. AudioResponse sockA (Some (answerTo n)) (goodRun n))
              [1, 2, 3, 4, 5, 6, 7, 8, 9, 10, 11, 12, 13, 14]) state0"

text \<open>
  Join, then the first answer submitted three times while the generator is down, with a
  transcriber that resolves with the transcript text.
\<close>

definition retriedTwice :: state where
  "retriedTwice =
     run [JoinInterview sockA (Some 1) joinOk,
          AudioResponse sockA (Some (answerTo 1)) (generatorDown 1),
          AudioResponse sockA (Some (answerTo 1)) (generatorDown 2),
          AudioResponse sockA (Some (answerTo 1)) (generatorDown 3)] state0"

text \<open>Two sockets join the interview; the first ends it after ten minutes.\<close>

definition bothJoined :: state where
  "bothJoined =
     run [JoinInterview sockA (Some 1) joinOk,
          JoinInterview sockB (Some 1) joinOk] state0"

definition endedOnce :: state where
  "endedOnce = run [EndInterview sockA (endAt 600000)] bothJoined"

text \<open>The first socket has joined and received the first question.\<close>

definition joined :: state where
  "joined = run [JoinInterview sockA (Some 1) joinOk] state0"

text \<open>The response a successful run stores for the \<open>n\<close>-th answer.\<close>

definition goodResponse :: "nat \<Rightarrow> response" where
  "goodResponse n = \<lparr> questionId = n, r_transcription = ''To serve the public'',
       r_sentiment = \<lparr> score = 0.5, magnitude = 1, label = ''positive'', confidence = 0.25 \<rparr>,
       timestamp = 60000 * int n, responseTime = 4000 \<rparr>"

text \<open>A session whose copy of the interview holds \<open>n\<close> questions.\<close>

definition sessionWith :: "nat \<Rightarrow> session" where
  "sessionWith n = \<lparr> s_interviewId = 1, s_userId = 7,
                     s_interview = interview0\<lparr> questions := replicate n (questionNo 1) \<rparr>,
                     currentQuestionIndex = n, isProcessing = False \<rparr>"

text \<open>A start request that leaves every member to its default, with persistence up.\<close>

definition defaultsBody :: start_body where
  "defaultsBody = \<lparr> b_type = None, b_duration = None, b_difficulty = None, b_focusAreas = None \<rparr>"

definition allUp :: start_env where
  "allUp = \<lparr> se_dafLookup = True, se_ongoingLookup = True, se_saved = True, se_now = 0 \<rparr>"

text \<open>What validation makes of that request.\<close>

definition defaultsValue :: start_value where
  "defaultsValue = \<lparr> v_type = ''mock'', v_duration = 30, v_difficulty = ''medium'', v_focusAreas = [] \<rparr>"

text \<open>
  What the speech client recognized in an answer, a run whose transcription comes from
  \<open>transcribeAudio\<close>, and a sitting handled one event at a time: join, the first answer
  submitted twice, end.
\<close>

definition heard :: "recognition_result list option outcome" where
  "heard = Returns (Some [[\<lparr> transcript = ''To serve the public'', alt_confidence = 0.9 \<rparr>]])"

definition serviceRun :: "nat \<Rightarrow> audio_env" where
  "serviceRun n = (goodRun n)\<lparr> ae_transcribed := transcribeAudio (audioData (answerTo n)) heard \<rparr>"

definition oneSitting :: "op list" where
  "oneSitting =
     [JoinInterview sockA (Some 1) joinOk,
      AudioResponse sockA (Some (answerTo 1)) (serviceRun 1),
      AudioResponse sockA (Some (answerTo 1)) (serviceRun 2),
      EndInterview sockA (endAt 600000)]"


section \<open>Evaluation rules\<close>

lemmas handler_defs = audio_response_def analyseAndStore_def continueOrEnd_def deliverNext_def
  audioCatch_def generateNextQuestion_def endInterview_def join_interview_def
  generateAndSendFirstQuestion_def end_interview_def disconnect_def setProcessing_def
  analyzeSentiment_def synthesizeSpeech_def blank_def trim_def isWhiteSpace_def
  getSentimentLabel_def calculateConfidence_def minutesSince_def mathRound_def
  findOne_def pushQuestion_def pushResponse_def questionsOf_def responsesOf_def
  storedQuestions_def storedResponses_def Let_def

lemmas scenario_defs = interview0_def noSession_def state0_def sockA_def sockB_def questionNo_def
  joinOk_def endAt_def answerTo_def goodRun_def generatorDown_def goodResponse_def
  sessionWith_def defaultsBody_def allUp_def defaultsValue_def
  heard_def serviceRun_def oneSitting_def

section \<open>The processing latch\<close>

lemma latch_idle: "\<not> isProcessing s \<Longrightarrow> s\<lparr> isProcessing := False \<rparr> = s"
  by (cases s) simp

lemma latch_roundtrip:
  "\<not> isProcessing (objects st a) \<Longrightarrow> setProcessing a False (setProcessing a True st) = st"
  by (simp add: setProcessing_def latch_idle)

lemma audioCatch_latch:
  "activeInterviews st (sock_id sock) = Some a \<Longrightarrow>
   \<not> isProcessing (objects (fst (audioCatch sock st evs)) a)
   \<and> activeInterviews (fst (audioCatch sock st evs)) = activeInterviews st"
  by (simp add: audioCatch_def Let_def setProcessing_def)

lemma deliverNext_latch:
  "activeInterviews st (sock_id sock) = Some a \<Longrightarrow>
   \<not> isProcessing (objects (fst (deliverNext sock a env t sa q st evs)) a)
   \<and> activeInterviews (fst (deliverNext sock a env t sa q st evs)) = activeInterviews st"
  by (simp add: deliverNext_def Let_def audioCatch_latch setProcessing_def split: outcome.splits)

lemma continueOrEnd_latch:
  "activeInterviews st (sock_id sock) = Some a \<Longrightarrow>
   \<not> isProcessing (objects (fst (continueOrEnd sock a env t sa st evs)) a)
   \<and> (activeInterviews (fst (continueOrEnd sock a env t sa st evs)) (sock_id sock) = Some a
      \<or> activeInterviews (fst (continueOrEnd sock a env t sa st evs)) (sock_id sock) = None)"
  by (auto simp add: continueOrEnd_def endInterview_def Let_def audioCatch_latch deliverNext_latch
      setProcessing_def split: outcome.splits option.splits if_splits)

lemma analyseAndStore_latch:
  "activeInterviews st (sock_id sock) = Some a \<Longrightarrow>
   \<not> isProcessing (objects (fst (analyseAndStore sock a d env t st evs)) a)
   \<and> (activeInterviews (fst (analyseAndStore sock a d env t st evs)) (sock_id sock) = Some a
      \<or> activeInterviews (fst (analyseAndStore sock a d env t st evs)) (sock_id sock) = None)"
  by (simp add: analyseAndStore_def Let_def audioCatch_latch continueOrEnd_latch split: outcome.splits)

text \<open>A transcription the handler cannot use ends the run where it began.\<close>

lemma unusable_transcription_aborts:
  assumes "activeInterviews st (sock_id sock) = Some a" and "\<not> isProcessing (objects st a)"
    and "\<And>t. ae_transcribed env = Returns (JString t) \<Longrightarrow> blank t"
  shows "audio_response sock (Some d) env st
         = (st, [ProcessingResponse ''transcribing'' None,
                 ErrorEv (if ae_transcribed env = Returns JNull
                             \<or> (\<exists>t. ae_transcribed env = Returns (JString t))
                          then ''Could not transcribe audio. Please try again.''
                          else ''Failed to process response'')])"
proof -
  let ?st1 = "setProcessing a True st"
  have restored: "setProcessing a False ?st1 = st"
    using assms(2) by (rule latch_roundtrip)
  have caught: "audioCatch sock ?st1 evs = (st, evs @ [ErrorEv ''Failed to process response''])" for evs
    using assms(1) restored by (simp add: audioCatch_def Let_def setProcessing_def)
  show ?thesis
  proof (cases "ae_transcribed env")
    case Throws
    then show ?thesis using assms(1,2) caught by (simp add: audio_response_def Let_def)
  next
    case (Returns v)
    show ?thesis
    proof (cases v)
      case JNull
      with Returns show ?thesis using assms(1,2) restored by (simp add: audio_response_def Let_def)
    next
      case (JString t)
      with Returns assms(3) have "blank t" by simp
      with Returns JString show ?thesis
        using assms(1,2) restored by (simp add: audio_response_def Let_def)
    next
      case (JObject obj)
      with Returns show ?thesis using assms(1,2) caught by (simp add: audio_response_def Let_def)
    qed
  qed
qed

text \<open>The repository's own transcriber never resolves with a string.\<close>

lemma transcribeAudio_cases:
  "transcribeAudio buf recognized = Throws \<or> transcribeAudio buf recognized = Returns JNull
   \<or> (\<exists>obj. transcribeAudio buf recognized = Returns (JObject obj))"
  by (simp add: transcribeAudio_def split: outcome.splits option.splits)

text \<open>
  C1. Every run of the \<open>audio_response\<close> handler that passes the guard (a session exists
  and is not processing) ends with that session's \<open>isProcessing\<close> flag false, whatever
  the payload and whatever each collaborator does: success, empty transcription, and a
  failure of the transcriber, the scorer, a persistence call, the question generator, the
  synthesizer or \<open>endInterview\<close>. Afterwards the socket maps to the same session or, when
  the run ended the interview, to none. A run is one invocation of the handler taken to
  its end.
\<close>

theorem audio_response_releases_latch:
  assumes "activeInterviews st (sock_id sock) = Some a" and "\<not> isProcessing (objects st a)"
  shows "\<not> isProcessing (objects (fst (audio_response sock data env st)) a)
       \<and> (activeInterviews (fst (audio_response sock data env st)) (sock_id sock) = Some a
          \<or> activeInterviews (fst (audio_response sock data env st)) (sock_id sock) = None)"
proof -
  have latched: "activeInterviews (setProcessing a True st) (sock_id sock) = Some a"
    using assms(1) by (simp add: setProcessing_def)
  have released: "\<not> isProcessing (objects (setProcessing a False (setProcessing a True st)) a)"
    by (simp add: setProcessing_def)
  have kept: "activeInterviews (setProcessing a False (setProcessing a True st)) = activeInterviews st"
    by (simp add: setProcessing_def)
  show ?thesis
    using assms latched audioCatch_latch [OF latched] analyseAndStore_latch [OF latched]
      released kept
    by (simp add: audio_response_def Let_def
        split: option.splits outcome.splits transcription_value.splits)
qed

theorem audio_response_releases_latch_witness:
  "activeInterviews joined (sock_id sockA) = Some 0
   \<and> \<not> isProcessing (objects joined 0)
   \<and> \<not> isProcessing (objects (fst (audio_response sockA (Some (answerTo 1)) (generatorDown 1) joined)) 0)"
proof -
  have session: "activeInterviews joined (sock_id sockA) = Some 0"
    by (simp add: joined_def handler_defs scenario_defs)
  have idle: "\<not> isProcessing (objects joined 0)"
    by (simp add: joined_def handler_defs scenario_defs)
  from audio_response_releases_latch [OF session idle] session idle
  show ?thesis by blast
qed

text \<open>
  C2. When an \<open>audio_response\<close> event arrives and the socket has no session, or its
  session is processing, the handler emits exactly one \<open>error\<close> event and changes
  nothing: the stored interviews, the sessions and the rooms are as before.
\<close>

theorem audio_response_rejected:
  assumes "activeInterviews st (sock_id sock) = None
           \<or> (\<exists>a. activeInterviews st (sock_id sock) = Some a \<and> isProcessing (objects st a))"
  shows "audio_response sock data env st = (st, [ErrorEv ''Invalid session or already processing''])"
  using assms by (auto simp add: audio_response_def)

theorem audio_response_rejected_witness:
  "activeInterviews state0 (sock_id sockA) = None
   \<and> audio_response sockA (Some (answerTo 1)) (goodRun 1) state0
       = (state0, [ErrorEv ''Invalid session or already processing''])
   \<and> activeInterviews (setProcessing 0 True joined) (sock_id sockA) = Some 0
   \<and> isProcessing (objects (setProcessing 0 True joined) 0)
   \<and> audio_response sockA (Some (answerTo 1)) (goodRun 1) (setProcessing 0 True joined)
       = (setProcessing 0 True joined, [ErrorEv ''Invalid session or already processing''])"
proof -
  have none: "activeInterviews state0 (sock_id sockA) = None"
    by (simp add: scenario_defs)
  have session: "activeInterviews (setProcessing 0 True joined) (sock_id sockA) = Some 0"
    by (simp add: joined_def handler_defs scenario_defs)
  have busy: "isProcessing (objects (setProcessing 0 True joined) 0)"
    by (simp add: setProcessing_def)
  from session busy
  have "\<exists>a. activeInterviews (setProcessing 0 True joined) (sock_id sockA) = Some a
            \<and> isProcessing (objects (setProcessing 0 True joined) a)"
    by blast
  then show ?thesis
    using audio_response_rejected [of state0 sockA "Some (answerTo 1)" "goodRun 1"]
      audio_response_rejected [of "setProcessing 0 True joined" sockA "Some (answerTo 1)" "goodRun 1"]
      none session busy
    by simp
qed

text \<open>
  C4. When the transcription of a submitted answer fails or is empty, the handler emits
  an \<open>error\<close> event (after the \<open>transcribing\<close> progress event), appends no response,
  changes nothing else, and the session is not processing afterwards: the whole state is
  as it was before the event. This covers a rejected call, \<open>null\<close>, an empty or blank
  string, and a result object, on which the call of \<open>trim\<close> raises.
\<close>

theorem failed_transcription_changes_nothing:
  assumes "activeInterviews st (sock_id sock) = Some a" and "\<not> isProcessing (objects st a)"
    and "ae_transcribed env = Throws
         \<or> ae_transcribed env = Returns JNull
         \<or> (\<exists>t. ae_transcribed env = Returns (JString t) \<and> blank t)
         \<or> (\<exists>obj. ae_transcribed env = Returns (JObject obj))"
  shows "audio_response sock (Some d) env st
           = (st, [ProcessingResponse ''transcribing'' None,
                   ErrorEv (if ae_transcribed env = Returns JNull
                               \<or> (\<exists>t. ae_transcribed env = Returns (JString t))
                            then ''Could not transcribe audio. Please try again.''
                            else ''Failed to process response'')])
         \<and> \<not> isProcessing (objects (fst (audio_response sock (Some d) env st)) a)
         \<and> responsesOf i (fst (audio_response sock (Some d) env st)) = responsesOf i st"
proof -
  from assms(3) have unusable: "\<And>t. ae_transcribed env = Returns (JString t) \<Longrightarrow> blank t"
    by auto
  from unusable_transcription_aborts [OF assms(1,2) unusable, where d = d] assms(2)
  show ?thesis by simp
qed

theorem failed_transcription_changes_nothing_witness:
  "activeInterviews joined (sock_id sockA) = Some 0
   \<and> \<not> isProcessing (objects joined 0)
   \<and> audio_response sockA (Some (answerTo 1)) ((goodRun 1)\<lparr> ae_transcribed := Returns (JString ''  '') \<rparr>) joined
       = (joined, [ProcessingResponse ''transcribing'' None,
                   ErrorEv ''Could not transcribe audio. Please try again.''])"
proof -
  let ?env = "(goodRun 1)\<lparr> ae_transcribed := Returns (JString ''  '') \<rparr>"
  have session: "activeInterviews joined (sock_id sockA) = Some 0"
    by (simp add: joined_def handler_defs scenario_defs)
  have idle: "\<not> isProcessing (objects joined 0)"
    by (simp add: joined_def handler_defs scenario_defs)
  have empty: "ae_transcribed ?env = Throws
         \<or> ae_transcribed ?env = Returns JNull
         \<or> (\<exists>t. ae_transcribed ?env = Returns (JString t) \<and> blank t)
         \<or> (\<exists>obj. ae_transcribed ?env = Returns (JObject obj))"
    by (simp add: blank_def trim_def isWhiteSpace_def)
  from failed_transcription_changes_nothing [OF session idle empty, where d = "answerTo 1" and i = 1]
    session idle
  show ?thesis by simp
qed

section \<open>Sentiment labels\<close>

text \<open>
  C9. \<open>getSentimentLabel\<close> gives \<open>positive\<close> exactly for scores of at least 0.25,
  \<open>negative\<close> exactly for scores of at most -0.25 and \<open>neutral\<close> exactly in between,
  and the analysis \<open>analyzeSentiment\<close> returns carries the label of the document score.
\<close>

theorem sentiment_label_thresholds:
  "(getSentimentLabel x = ''positive'' \<longleftrightarrow> x \<ge> 0.25)
   \<and> (getSentimentLabel x = ''negative'' \<longleftrightarrow> x \<le> - 0.25)
   \<and> (getSentimentLabel x = ''neutral'' \<longleftrightarrow> - 0.25 < x \<and> x < 0.25)
   \<and> (analyzeSentiment t (Returns (x, mag)) derivedOk = Returns an
        \<longrightarrow> score an = x \<and> label an = getSentimentLabel x)"
proof (intro conjI impI)
  show "getSentimentLabel x = ''positive'' \<longleftrightarrow> x \<ge> 0.25"
    by (simp add: getSentimentLabel_def)
  show "getSentimentLabel x = ''negative'' \<longleftrightarrow> x \<le> - 0.25"
    by (simp add: getSentimentLabel_def)
  show "getSentimentLabel x = ''neutral'' \<longleftrightarrow> - 0.25 < x \<and> x < 0.25"
    by (auto simp add: getSentimentLabel_def)
next
  assume "analyzeSentiment t (Returns (x, mag)) derivedOk = Returns an"
  then have "an = \<lparr> score = x, magnitude = mag, label = getSentimentLabel x,
                       confidence = calculateConfidence x mag \<rparr>"
    by (simp add: analyzeSentiment_def split: if_splits)
  then show "score an = x" and "label an = getSentimentLabel x"
    by simp_all
qed

theorem sentiment_label_thresholds_witness:
  "analyzeSentiment ''To serve the public'' (Returns (0.25, 1)) True
     = Returns \<lparr> score = 0.25, magnitude = 1, label = ''positive'', confidence = 0.125 \<rparr>
   \<and> getSentimentLabel 0.25 = ''positive''"
proof -
  let ?an = "\<lparr> score = 0.25, magnitude = 1, label = ''positive'', confidence = 0.125 \<rparr>"
  have returned: "analyzeSentiment ''To serve the public'' (Returns (0.25, 1)) True = Returns ?an"
    by (simp add: analyzeSentiment_def blank_def trim_def isWhiteSpace_def getSentimentLabel_def
        calculateConfidence_def)
  note thresholds = sentiment_label_thresholds [where x = "0.25" and t = "''To serve the public''"
      and mag = 1 and derivedOk = True and an = ?an]
  from thresholds have "getSentimentLabel 0.25 = ''positive'' \<longleftrightarrow> (0.25 :: real) \<ge> 0.25"
    by (rule conjunct1)
  then have positive: "getSentimentLabel 0.25 = ''positive''"
    by simp
  from thresholds returned have "label ?an = getSentimentLabel 0.25"
    by blast
  with returned positive show ?thesis
    by blast
qed

section \<open>The stored sequences\<close>





























text \<open>
  The join handler in its two parts, and what overlapping joins and answers whose
  transcription is not a string do to the stored sequences.
\<close>

lemma join_interview_split:
  "join_interview sock data env st
   = (case joinLookup sock data env st of
        (r, None) \<Rightarrow> r
      | ((st1, evs), Some d) \<Rightarrow> generateAndSendFirstQuestion sock d (je_first env) st1)"
  by (simp add: join_interview_def joinLookup_def Let_def split: option.splits)




lemma run_is_perform: "run xs st = perform (map Whole xs) st"
  by (induction xs arbitrary: st) simp_all





lemma transcribeAudio_service:
  "serviceTranscription (AudioResponse sock data (env\<lparr> ae_transcribed := transcribeAudio buf recognized \<rparr>))"
  using transcribeAudio_cases [of buf recognized] by auto

text \<open>
  With a transcriber that resolves with text, a run stores the response before it asks
  for the next question, so retries while the generator is down leave three responses
  and one question.
\<close>

lemma retries_with_text_transcriber:
  "length (questionsOf 1 retriedTwice) = 1 \<and> length (responsesOf 1 retriedTwice) = 3"
  by (simp add: retriedTwice_def handler_defs scenario_defs)




section \<open>The continuation decision\<close>

text \<open>
  C5. Whether \<open>generateNextQuestion\<close> ends the interview depends only on the start time,
  the current time, the duration and the number of questions in the session's copy of
  the interview, with the ceiling fixed at 15: when the elapsed minutes are at least the
  duration or the count is at least 15 it returns \<open>null\<close> without calling the
  generator, and otherwise it is whatever the generator does. So with a generator that
  returns a question the result is \<open>null\<close> exactly under that condition, which in
  milliseconds reads \<open>60000 * duration \<le> now - startedAt\<close> for the elapsed time.
\<close>

theorem continuation_decision:
  "(minutesSince (startedAt (s_interview s)) now \<ge> of_int (duration (s_interview s))
      \<or> length (questions (s_interview s)) \<ge> 15
      \<longrightarrow> generateNextQuestion s now g = Returns None)
   \<and> (\<not> (minutesSince (startedAt (s_interview s)) now \<ge> of_int (duration (s_interview s))
          \<or> length (questions (s_interview s)) \<ge> 15)
      \<longrightarrow> generateNextQuestion s now g = g)
   \<and> (generateNextQuestion s now (Returns (Some q)) = Returns None
      \<longleftrightarrow> minutesSince (startedAt (s_interview s)) now \<ge> of_int (duration (s_interview s))
          \<or> length (questions (s_interview s)) \<ge> 15)
   \<and> (minutesSince (startedAt (s_interview s)) now \<ge> of_int (duration (s_interview s))
      \<longleftrightarrow> now - startedAt (s_interview s) \<ge> 60000 * duration (s_interview s))"
proof -
  have "(of_int (duration (s_interview s)) :: real) \<le> of_int (now - startedAt (s_interview s)) / 60000
        \<longleftrightarrow> (of_int (60000 * duration (s_interview s)) :: real) \<le> of_int (now - startedAt (s_interview s))"
    by (simp add: le_divide_eq mult.commute)
  also have "\<dots> \<longleftrightarrow> 60000 * duration (s_interview s) \<le> now - startedAt (s_interview s)"
    by (simp only: of_int_le_iff)
  finally show ?thesis
    by (simp add: generateNextQuestion_def Let_def minutesSince_def)
qed

theorem continuation_decision_witness:
  "generateNextQuestion (sessionWith 15) 0 (Returns (Some (questionNo 16))) = Returns None
   \<and> generateNextQuestion (sessionWith 0) 1800000 (Returns (Some (questionNo 1))) = Returns None
   \<and> generateNextQuestion (sessionWith 14) 1799999 (Returns (Some (questionNo 15)))
       = Returns (Some (questionNo 15))"
  using continuation_decision [where s = "sessionWith 15" and now = 0 and q = "questionNo 16"
      and g = "Returns (Some (questionNo 16))"]
    continuation_decision [where s = "sessionWith 0" and now = 1800000 and q = "questionNo 1"
      and g = "Returns (Some (questionNo 1))"]
    continuation_decision [where s = "sessionWith 14" and now = 1799999 and q = "questionNo 15"
      and g = "Returns (Some (questionNo 15))"]
  by (simp add: scenario_defs minutesSince_def)

text \<open>The state after fifteen questions have been asked in one session.\<close>

lemma fifteenAsked_state:
  "fifteenAsked =
     \<lparr> db = [interview0\<lparr> questions := map questionNo [1, 2, 3, 4, 5, 6, 7, 8, 9, 10, 11, 12, 13, 14, 15],
                           responses := map goodResponse [1, 2, 3, 4, 5, 6, 7, 8, 9, 10, 11, 12, 13, 14] \<rparr>],
       activeInterviews = [1 \<mapsto> 0],
       objects = (\<lambda>a. noSession)
         (0 := \<lparr> s_interviewId = 1, s_userId = 7, s_interview = interview0,
                  currentQuestionIndex = 14, isProcessing = False \<rparr>),
       nextAddr = 1,
       rooms = {(1, 1)} \<rparr>"
  apply (simp add: fifteenAsked_def handler_defs scenario_defs)
  apply (simp add: eval_nat_numeral)
  done

text \<open>
  When the session's copy of the interview holds fifteen questions (a session that joined
  an interview already at the ceiling), a run whose stages succeed stores the response,
  ends the interview and emits \<open>interview_ended\<close>.
\<close>

lemma ceiling_reached_in_copy:
  assumes "activeInterviews st (sock_id sock) = Some a" and "\<not> isProcessing (objects st a)"
    and "ae_transcribed env = Returns (JString t)" and "\<not> blank t"
    and "ae_documentSentiment env = Returns (x, mag)" and "ae_derivedOk env"
    and "ae_responsePushed env" and "ee_update (ae_end env)"
    and "length (questions (s_interview (objects st a))) \<ge> 15"
  shows "\<exists>n m. last (snd (audio_response sock (Some d) env st))
                 = InterviewEnded (s_interviewId (objects st a)) n m"
    and "activeInterviews (fst (audio_response sock (Some d) env st)) (sock_id sock) = None"
  using assms
  by (simp_all add: audio_response_def analyseAndStore_def continueOrEnd_def
      generateNextQuestion_def endInterview_def analyzeSentiment_def setProcessing_def Let_def)

text \<open>
  With the repository's own transcriber in place of \<open>ae_transcribed\<close> no run gets past the
  transcription step, whatever the speech client recognized.
\<close>

lemma service_transcription_unusable:
  assumes "activeInterviews st (sock_id sock) = Some a" and "\<not> isProcessing (objects st a)"
    and "ae_transcribed env = transcribeAudio (audioData d) recognized"
  shows "fst (audio_response sock (Some d) env st) = st"
    and "\<exists>m. snd (audio_response sock (Some d) env st)
               = [ProcessingResponse ''transcribing'' None, ErrorEv m]"
proof -
  from assms(3) transcribeAudio_cases [of "audioData d" recognized]
  have "\<And>t. ae_transcribed env = Returns (JString t) \<Longrightarrow> blank t"
    by auto
  from unusable_transcription_aborts [OF assms(1,2) this, where d = d]
  show "fst (audio_response sock (Some d) env st) = st"
    and "\<exists>m. snd (audio_response sock (Some d) env st)
               = [ProcessingResponse ''transcribing'' None, ErrorEv m]"
    by simp_all
qed

text \<open>
  C6. After fifteen questions have been asked, the answer to the fifteenth should end the
  interview: \<open>interview_ended\<close> instead of \<open>next_question\<close>, status \<open>completed\<close>. In a
  session that joined the interview when it had no question, the count that
  \<open>generateNextQuestion\<close> reads is that of the copy taken at join time, which no run
  updates: the fifteenth answer, fifteen minutes into a thirty-minute interview, is
  followed by a sixteenth question and the interview stays in progress.
\<close>

theorem fifteenth_answer_continues:
  "length (questionsOf 1 fifteenAsked) = 15
   \<and> length (questions (s_interview (objects fifteenAsked 0))) = 0
   \<and> snd (step (AudioResponse sockA (Some (answerTo 15)) (goodRun 15)) fifteenAsked)
       = [ProcessingResponse ''transcribing'' None,
          ProcessingResponse ''analyzing'' (Some ''To serve the public''),
          ProcessingResponse ''generating_question'' None,
          NextQuestion (questionNo 16) 16 ''mp3'' ''To serve the public''
            \<lparr> score = 0.5, magnitude = 1, label = ''positive'', confidence = 0.25 \<rparr>]
   \<and> map status (db (fst (step (AudioResponse sockA (Some (answerTo 15)) (goodRun 15)) fifteenAsked)))
       = [''in_progress'']
   \<and> length (questionsOf 1 (fst (step (AudioResponse sockA (Some (answerTo 15)) (goodRun 15)) fifteenAsked)))
       = 16"
  by (simp add: fifteenAsked_state handler_defs scenario_defs)

section \<open>Ending an interview\<close>

text \<open>
  Once its update has resolved, \<open>endInterview\<close> has removed the session and left the room,
  so a second \<open>end_interview\<close> event on the same socket finds no session and does
  nothing.
\<close>

lemma end_interview_removes_session:
  assumes "activeInterviews st (sock_id sock) = Some a" and "ee_update ee"
  shows "activeInterviews (fst (end_interview sock ee st)) (sock_id sock) = None"
    and "rooms (fst (end_interview sock ee st)) = rooms st - {(sock_id sock, s_interviewId (objects st a))}"
    and "end_interview sock ee' (fst (end_interview sock ee st)) = (fst (end_interview sock ee st), [])"
  using assms
  by (simp_all add: end_interview_def endInterview_def Let_def)

text \<open>
  C7. Ending an interview that is already completed should change nothing and give the
  same summary. \<open>endInterview\<close> updates the document by its identifier without looking
  at the status. Two sockets of the owner join the interview; the first ends it after
  ten minutes. The second socket's \<open>end_interview\<close> five minutes later runs
  \<open>endInterview\<close> on the completed interview: \<open>endedAt\<close> and \<open>actualDuration\<close> are
  written again and the summary differs from the first.
\<close>

theorem second_end_overwrites:
  "map status (db endedOnce) = [''completed'']
   \<and> map endedAt (db endedOnce) = [Some 600000]
   \<and> map actualDuration (db endedOnce) = [Some 10]
   \<and> snd (step (EndInterview sockA (endAt 600000)) bothJoined) = [InterviewEnded 1 0 10]
   \<and> map endedAt (db (fst (step (EndInterview sockB (endAt 900000)) endedOnce))) = [Some 900000]
   \<and> map actualDuration (db (fst (step (EndInterview sockB (endAt 900000)) endedOnce))) = [Some 15]
   \<and> snd (step (EndInterview sockB (endAt 900000)) endedOnce) = [InterviewEnded 1 2 15]"
  by (simp add: endedOnce_def bothJoined_def handler_defs scenario_defs)

section \<open>Joining\<close>




section \<open>Starting an interview\<close>

lemma find_none_count:
  "findOne (\<lambda>d. userId d = u \<and> status d = ''in_progress'') docs = None \<longleftrightarrow> inProgressCount u docs = 0"
  by (induction docs) (auto simp add: findOne_def inProgressCount_def)

lemma startGuard_rejects_ongoing:
  assumes "inProgressCount uid docs > 0"
  shows "\<exists>r. startGuard uid body env dafs docs = Rejected r
             \<and> (code r = 400 \<or> code r = 500)
             \<and> (code r = 500 \<longleftrightarrow>
                   (\<exists>v. validateStart body = Inr v)
                   \<and> (\<not> se_dafLookup env \<or> (map_of dafs uid \<noteq> None \<and> \<not> se_ongoingLookup env)))"
proof -
  from assms have "findOne (\<lambda>d. userId d = uid \<and> status d = ''in_progress'') docs \<noteq> None"
    by (simp add: find_none_count)
  then show ?thesis
    by (auto simp add: startGuard_def internalError_def split: sum.splits option.splits)
qed

lemma startInterview_docs:
  "fst (startInterview uid body env dafs docs) = docs
   \<or> (inProgressCount uid docs = 0
       \<and> (\<exists>d. fst (startInterview uid body env dafs docs) = docs @ [d] \<and> userId d = uid))"
  by (auto simp add: startInterview_def startGuard_def startSave_def Let_def find_none_count [symmetric]
      split: sum.splits option.splits start_phase.splits)

text \<open>
  C10 as the specification states it fails in two ways. Two requests of a user with no
  interview in progress overlap: both guards look at the empty collection and pass,
  both saves succeed with a 201, and the user has two interviews in progress. And with
  an interview in progress, a request whose DAF lookup rejects is answered with a 500,
  not a 400.
\<close>

theorem overlapping_starts_two_in_progress:
  "startGuard 7 defaultsBody allUp [(7, 3)] [] = Passed defaultsValue 3
   \<and> fst (startSave 7 defaultsValue 3 allUp []) = [interview0]
   \<and> code (snd (startSave 7 defaultsValue 3 allUp [])) = 201
   \<and> inProgressCount 7 [interview0] = 1
   \<and> code (snd (startSave 7 defaultsValue 3 allUp [interview0])) = 201
   \<and> inProgressCount 7 (fst (startSave 7 defaultsValue 3 allUp [interview0])) = 2
   \<and> code (snd (startInterview 7 defaultsBody (allUp\<lparr> se_dafLookup := False \<rparr>) [(7, 3)] [interview0])) = 500"
  by (simp add: startInterview_def startGuard_def startSave_def validateStart_def freshId_def findOne_def
      inProgressCount_def internalError_def Let_def scenario_defs)

text \<open>
  C10. When a request is handled with no other request between its guard and its save,
  \<open>POST /start\<close> keeps every user at no more than one interview in progress: for any
  user, if the count was at most one before the request it is at most one after it.
  When the requesting user already has an interview in progress the request ends at the
  guard and no interview is created; the response is a 400, or the handler's 500 exactly
  when the body is valid and the DAF lookup rejects, or the user has a DAF and the
  lookup of the ongoing interview rejects.
\<close>

theorem start_keeps_one_in_progress:
  "(inProgressCount u docs \<le> 1 \<longrightarrow> inProgressCount u (fst (startInterview uid body env dafs docs)) \<le> 1)
   \<and> (inProgressCount uid docs > 0 \<longrightarrow>
        fst (startInterview uid body env dafs docs) = docs
        \<and> startGuard uid body env dafs docs = Rejected (snd (startInterview uid body env dafs docs))
        \<and> (code (snd (startInterview uid body env dafs docs)) = 400
            \<or> code (snd (startInterview uid body env dafs docs)) = 500)
        \<and> (code (snd (startInterview uid body env dafs docs)) = 500 \<longleftrightarrow>
              (\<exists>v. validateStart body = Inr v)
              \<and> (\<not> se_dafLookup env \<or> (map_of dafs uid \<noteq> None \<and> \<not> se_ongoingLookup env))))"
proof (intro conjI impI)
  assume "inProgressCount u docs \<le> 1"
  then show "inProgressCount u (fst (startInterview uid body env dafs docs)) \<le> 1"
    using startInterview_docs [of uid body env dafs docs]
    by (auto simp add: inProgressCount_def)
next
  assume ongoing: "inProgressCount uid docs > 0"
  from startGuard_rejects_ongoing [OF ongoing, of body env dafs]
  obtain r where r: "startGuard uid body env dafs docs = Rejected r"
    and codes: "code r = 400 \<or> code r = 500"
    and internal: "code r = 500 \<longleftrightarrow>
                   (\<exists>v. validateStart body = Inr v)
                   \<and> (\<not> se_dafLookup env \<or> (map_of dafs uid \<noteq> None \<and> \<not> se_ongoingLookup env))"
    by blast
  from r have whole: "startInterview uid body env dafs docs = (docs, r)"
    by (simp add: startInterview_def)
  from whole show "fst (startInterview uid body env dafs docs) = docs" by simp
  from whole r show "startGuard uid body env dafs docs = Rejected (snd (startInterview uid body env dafs docs))"
    by simp
  from whole codes show "code (snd (startInterview uid body env dafs docs)) = 400
            \<or> code (snd (startInterview uid body env dafs docs)) = 500"
    by simp
  from whole internal show "code (snd (startInterview uid body env dafs docs)) = 500 \<longleftrightarrow>
              (\<exists>v. validateStart body = Inr v)
              \<and> (\<not> se_dafLookup env \<or> (map_of dafs uid \<noteq> None \<and> \<not> se_ongoingLookup env))"
    by simp
qed

theorem start_keeps_one_in_progress_witness:
  "fst (startInterview 7 defaultsBody allUp [(7, 3)] []) = [interview0]
   \<and> inProgressCount 7 [interview0] \<le> 1
   \<and> inProgressCount 7 [interview0] > 0
   \<and> fst (startInterview 7 defaultsBody allUp [(7, 3)] [interview0]) = [interview0]
   \<and> code (snd (startInterview 7 defaultsBody allUp [(7, 3)] [interview0])) = 400
   \<and> inProgressCount 7 (fst (startInterview 7 defaultsBody allUp [(7, 3)] [interview0])) \<le> 1"
proof -
  have created: "fst (startInterview 7 defaultsBody allUp [(7, 3)] []) = [interview0]"
    by (simp add: startInterview_def startGuard_def startSave_def validateStart_def freshId_def
        findOne_def Let_def scenario_defs)
  have one: "inProgressCount 7 [interview0] = 1"
    by (simp add: inProgressCount_def interview0_def)
  have up: "se_dafLookup allUp" "se_ongoingLookup allUp"
    by (simp_all add: allUp_def)
  note kept = start_keeps_one_in_progress [where u = 7 and uid = 7 and docs = "[interview0]"
      and body = defaultsBody and env = allUp and dafs = "[(7, 3)]"]
  from kept one up have "code (snd (startInterview 7 defaultsBody allUp [(7, 3)] [interview0])) \<noteq> 500"
    by simp
  with kept one have "code (snd (startInterview 7 defaultsBody allUp [(7, 3)] [interview0])) = 400"
    by simp
  with kept one created show ?thesis
    by simp
qed

end
